theory Spec2Isabelle
  imports Main "HOL-Library.Word"
begin

unbundle bit_operations_syntax

section \<open>JavaScript strings and the string operations the pages use\<close>

text \<open>
  A JavaScript string is a sequence of UTF-16 code units. Literals of the source are
  written \<open>lit ''...''\<close>.
\<close>

type_synonym jschar = "16 word"
type_synonym jsstring = "jschar list"
type_synonym byte = "8 word"

definition lit :: "string \<Rightarrow> jsstring" where
  "lit s = map of_char s"

definition newline :: jschar where
  "newline = 0x0A"

text \<open>\<open>s.startsWith(p)\<close> and \<open>s.slice(n)\<close> for a non-negative \<open>n\<close>.\<close>

definition startsWith :: "'a list \<Rightarrow> 'a list \<Rightarrow> bool" where
  "startsWith s p = (take (length p) s = p)"

definition js_slice :: "nat \<Rightarrow> 'a list \<Rightarrow> 'a list" where
  "js_slice n s = drop n s"

text \<open>
  \<open>String.prototype.trim\<close> removes WhiteSpace and LineTerminator code points from both
  ends: TAB, VT, FF, SP, NBSP, ZWNBSP, the other space separators, and LF, CR, LS, PS.
\<close>

definition is_ws :: "jschar \<Rightarrow> bool" where
  "is_ws c = (c = 0x09 \<or> c = 0x0A \<or> c = 0x0B \<or> c = 0x0C \<or> c = 0x0D \<or> c = 0x20 \<or>
              c = 0xA0 \<or> c = 0x1680 \<or> (0x2000 \<le> c \<and> c \<le> 0x200A) \<or> c = 0x2028 \<or>
              c = 0x2029 \<or> c = 0x202F \<or> c = 0x205F \<or> c = 0x3000 \<or> c = 0xFEFF)"

definition trim :: "jsstring \<Rightarrow> jsstring" where
  "trim s = rev (dropWhile is_ws (rev (dropWhile is_ws s)))"

text \<open>\<open>s.split(sep)\<close> for a one-unit separator: never empty, \<open>''.split(sep)\<close> is \<open>['']\<close>.\<close>

fun js_split :: "'a \<Rightarrow> 'a list \<Rightarrow> 'a list list" where
  "js_split sep [] = [[]]"
| "js_split sep (c # cs) =
     (if c = sep then [] # js_split sep cs
      else (case js_split sep cs of [] \<Rightarrow> [[c]] | l # ls \<Rightarrow> (c # l) # ls))"

text \<open>\<open>xs.pop()\<close>: the removed last element (\<open>undefined\<close> on an empty array) and the rest.\<close>

definition pop :: "'a list \<Rightarrow> 'a option \<times> 'a list" where
  "pop xs = (if xs = [] then (None, []) else (Some (last xs), butlast xs))"

text \<open>\<open>x || ''\<close> for a string or \<open>undefined\<close>.\<close>

definition or_empty :: "jsstring option \<Rightarrow> jsstring" where
  "or_empty x = (case x of None \<Rightarrow> [] | Some s \<Rightarrow> (if s = [] then [] else s))"

section \<open>The streaming text decoder\<close>

text \<open>
  \<open>new TextDecoder()\<close> is a platform object. \<open>decoder.decode(value, {stream: true})\<close> runs
  the decoder's byte handler over the chunk and keeps the handler's state (a pending
  multi-byte sequence, the byte-order-mark flag) for the next call. The handler is the
  parameter \<open>dstep\<close>: from a state and a byte to the next state and the code units put out.
\<close>

fun decode :: "('d \<Rightarrow> byte \<Rightarrow> 'd \<times> jsstring) \<Rightarrow> 'd \<Rightarrow> byte list \<Rightarrow> 'd \<times> jsstring" where
  "decode dstep d [] = (d, [])"
| "decode dstep d (b # bs) =
     (let (d1, out1) = dstep d b; (d2, out2) = decode dstep d1 bs in (d2, out1 @ out2))"

text \<open>
  The handler of \<open>new TextDecoder()\<close> (UTF-8, replacement error mode, byte order mark
  not ignored), as the Encoding Standard gives it: a malformed sequence puts out U+FFFD,
  a byte that cannot continue a sequence is looked at again as a lead byte, and a
  U+FEFF that is the first code point of the stream is left out.
\<close>

record utf8_state =
  code_point :: nat
  bytes_seen :: nat
  bytes_needed :: nat
  lower_boundary :: byte
  upper_boundary :: byte
  bom_seen :: bool

definition utf8_init :: utf8_state where
  "utf8_init = \<lparr>code_point = 0, bytes_seen = 0, bytes_needed = 0,
                 lower_boundary = 0x80, upper_boundary = 0xBF, bom_seen = False\<rparr>"

definition utf16_units :: "nat \<Rightarrow> jsstring" where
  "utf16_units cp =
     (if cp < 0x10000 then [of_nat cp]
      else [of_nat (0xD800 + (cp - 0x10000) div 0x400),
            of_nat (0xDC00 + (cp - 0x10000) mod 0x400)])"

definition emit :: "utf8_state \<Rightarrow> nat \<Rightarrow> utf8_state \<times> jsstring" where
  "emit d cp =
     (if bom_seen d then (d, utf16_units cp)
      else (d\<lparr>bom_seen := True\<rparr>, if cp = 0xFEFF then [] else utf16_units cp))"

definition utf8_lead :: "utf8_state \<Rightarrow> byte \<Rightarrow> utf8_state \<times> jsstring" where
  "utf8_lead d b =
     (if b \<le> 0x7F then emit d (unat b)
      else if 0xC2 \<le> b \<and> b \<le> 0xDF then
        (d\<lparr>bytes_needed := 1, code_point := unat (b AND 0x1F)\<rparr>, [])
      else if 0xE0 \<le> b \<and> b \<le> 0xEF then
        (d\<lparr>lower_boundary := (if b = 0xE0 then 0xA0 else lower_boundary d),
           upper_boundary := (if b = 0xED then 0x9F else upper_boundary d),
           bytes_needed := 2, code_point := unat (b AND 0x0F)\<rparr>, [])
      else if 0xF0 \<le> b \<and> b \<le> 0xF4 then
        (d\<lparr>lower_boundary := (if b = 0xF0 then 0x90 else lower_boundary d),
           upper_boundary := (if b = 0xF4 then 0x8F else upper_boundary d),
           bytes_needed := 3, code_point := unat (b AND 0x07)\<rparr>, [])
      else emit d 0xFFFD)"

definition utf8_step :: "utf8_state \<Rightarrow> byte \<Rightarrow> utf8_state \<times> jsstring" where
  "utf8_step d b =
     (if bytes_needed d = 0 then utf8_lead d b
      else if \<not> (lower_boundary d \<le> b \<and> b \<le> upper_boundary d) then
        (let (d1, out1) = emit (d\<lparr>code_point := 0, bytes_needed := 0, bytes_seen := 0,
                                   lower_boundary := 0x80, upper_boundary := 0xBF\<rparr>) 0xFFFD;
             (d2, out2) = utf8_lead d1 b
         in (d2, out1 @ out2))
      else
        (let d1 = d\<lparr>lower_boundary := 0x80, upper_boundary := 0xBF,
                      code_point := code_point d * 64 + unat (b AND 0x3F),
                      bytes_seen := bytes_seen d + 1\<rparr>
         in if bytes_seen d1 \<noteq> bytes_needed d1 then (d1, [])
            else emit (d1\<lparr>code_point := 0, bytes_needed := 0, bytes_seen := 0\<rparr>)
                      (code_point d1)))"

text \<open>The bytes of an ASCII text.\<close>

definition bytes :: "string \<Rightarrow> byte list" where
  "bytes s = map of_char s"


section \<open>Chunk reassembly in the debug page's read loop\<close>

text \<open>
  One pass of the loop body of \<open>startStreaming\<close> up to the \<open>for\<close> over the lines: decode
  the chunk, append it to the buffer, split at line feeds, keep the last segment as the new
  buffer. The result is the decoder state and buffer after the pass and the lines handed
  to the \<open>for\<close> loop.
\<close>

definition read_chunk ::
  "('d \<Rightarrow> byte \<Rightarrow> 'd \<times> jsstring) \<Rightarrow> 'd \<times> jsstring \<Rightarrow> byte list \<Rightarrow> ('d \<times> jsstring) \<times> jsstring list" where
  "read_chunk dstep st v =
     (let (d, buffer) = st;
          (d', chunk) = decode dstep d v;
          buffer1 = buffer @ chunk;
          lines = js_split newline buffer1;
          (popped, lines') = pop lines;
          buffer2 = or_empty popped
      in ((d', buffer2), lines'))"

text \<open>The passes over a sequence of chunks, collecting the lines in order.\<close>

fun reassemble ::
  "('d \<Rightarrow> byte \<Rightarrow> 'd \<times> jsstring) \<Rightarrow> 'd \<times> jsstring \<Rightarrow> byte list list \<Rightarrow> ('d \<times> jsstring) \<times> jsstring list" where
  "reassemble dstep st [] = (st, [])"
| "reassemble dstep st (v # vs) =
     (let (st1, lines1) = read_chunk dstep st v;
          (st2, lines2) = reassemble dstep st1 vs
      in (st2, lines1 @ lines2))"

section \<open>JavaScript values, errors and the platform\<close>

text \<open>
  The values \<open>JSON.parse\<close> returns. Numbers are of a type \<open>'n\<close> of their own; an object
  is the list of its own properties.
\<close>

datatype 'n jsvalue =
    JNull
  | JBool bool
  | JNum 'n
  | JStr jsstring
  | JArr "'n jsvalue list"
  | JObj "(jsstring \<times> 'n jsvalue) list"

text \<open>An \<open>Error\<close> object: its \<open>name\<close> and its \<open>message\<close>.\<close>

datatype js_error = JsError (err_name: jsstring) (err_message: jsstring)

definition new_Error :: "jsstring \<Rightarrow> js_error" where
  "new_Error msg = JsError (lit ''Error'') msg"

definition TypeError :: "jsstring \<Rightarrow> js_error" where
  "TypeError msg = JsError (lit ''TypeError'') msg"

text \<open>\<open>Error.prototype.toString\<close>, which a template literal applies to an error.\<close>

definition error_toString :: "js_error \<Rightarrow> jsstring" where
  "error_toString e =
     (if err_name e = [] then err_message e
      else if err_message e = [] then err_name e
      else err_name e @ lit '': '' @ err_message e)"

text \<open>
  What the pages take from the platform: \<open>JSON.parse\<close> (\<open>None\<close> when it throws a
  SyntaxError), which numbers are falsy (zero and NaN), the string of a number, and the
  clock: \<open>Date_now P i\<close> is what \<open>new Date().toISOString()\<close> gives at the \<open>i\<close>-th reading.
\<close>

record 'n platform =
  JSON_parse :: "jsstring \<Rightarrow> 'n jsvalue option"
  Number_isFalsy :: "'n \<Rightarrow> bool"
  Number_toString :: "'n \<Rightarrow> jsstring"
  Date_now :: "nat \<Rightarrow> jsstring"

text \<open>The decimal digits of a natural number: the string of an HTTP status.\<close>

fun nat_toString :: "nat \<Rightarrow> jsstring" where
  "nat_toString n =
     (if n < 10 then [of_nat (48 + n)]
      else nat_toString (n div 10) @ [of_nat (48 + n mod 10)])"

declare nat_toString.simps [simp del]

text \<open>\<open>ToBoolean\<close> of a parsed value.\<close>

fun js_truthy :: "'n platform \<Rightarrow> 'n jsvalue \<Rightarrow> bool" where
  "js_truthy P JNull = False"
| "js_truthy P (JBool b) = b"
| "js_truthy P (JNum n) = (\<not> Number_isFalsy P n)"
| "js_truthy P (JStr s) = (s \<noteq> [])"
| "js_truthy P (JArr xs) = True"
| "js_truthy P (JObj kvs) = True"

text \<open>\<open>xs.join(sep)\<close> on strings.\<close>

fun join :: "'a list \<Rightarrow> 'a list list \<Rightarrow> 'a list" where
  "join sep [] = []"
| "join sep [x] = x"
| "join sep (x # y # ys) = x @ sep @ join sep (y # ys)"

text \<open>
  \<open>ToString\<close> of a parsed value, \<open>None\<close> when it throws a TypeError. An array is joined
  with commas, \<open>null\<close> elements giving the empty string. A parsed object has no callable
  property of its own, so it gives \<open>[object Object]\<close> through the inherited \<open>toString\<close>,
  and a TypeError when it has a property \<open>toString\<close> of its own.
\<close>

fun js_toString :: "'n platform \<Rightarrow> 'n jsvalue \<Rightarrow> jsstring option" where
  "js_toString P JNull = Some (lit ''null'')"
| "js_toString P (JBool b) = Some (if b then lit ''true'' else lit ''false'')"
| "js_toString P (JNum n) = Some (Number_toString P n)"
| "js_toString P (JStr s) = Some s"
| "js_toString P (JArr xs) =
     map_option (join (lit '','')) 
       (those (map (\<lambda>x. case x of JNull \<Rightarrow> Some [] | _ \<Rightarrow> js_toString P x) xs))"
| "js_toString P (JObj kvs) =
     (if lit ''toString'' \<in> set (map fst kvs) then None else Some (lit ''[object Object]''))"

text \<open>\<open>o[key]\<close> on a parsed value: \<open>None\<close> is \<open>undefined\<close>.\<close>

fun get_prop :: "'n jsvalue \<Rightarrow> jsstring \<Rightarrow> 'n jsvalue option" where
  "get_prop (JObj kvs) key = map_of kvs key"
| "get_prop v key = None"

section \<open>The debug page (compact protocol)\<close>

datatype stream_event_type = SE_content | SE_tool_call | SE_tool_result | SE_end | SE_unknown

record 'n StreamEvent =
  se_timestamp :: jsstring
  se_prefix :: jsstring
  se_data :: jsstring
  se_parsed :: "'n jsvalue option"
  se_type :: stream_event_type

text \<open>
  One branch of \<open>parseStreamEvent\<close>: the four prefix branches differ in the prefix name
  and the type only. The payload is \<open>line.slice(2)\<close>; \<open>parsed\<close> is the parsed payload,
  and the payload string itself when \<open>JSON.parse\<close> throws.
\<close>

definition compact_branch ::
  "'n platform \<Rightarrow> jsstring \<Rightarrow> jsstring \<Rightarrow> jsstring \<Rightarrow> stream_event_type \<Rightarrow> 'n StreamEvent" where
  "compact_branch P timestamp line pfx ty =
     (let data = js_slice 2 line;
          parsed = (case JSON_parse P data of Some v \<Rightarrow> v | None \<Rightarrow> JStr data)
      in \<lparr>se_timestamp = timestamp, se_prefix = pfx, se_data = data,
          se_parsed = Some parsed, se_type = ty\<rparr>)"

definition parseStreamEvent :: "'n platform \<Rightarrow> jsstring \<Rightarrow> jsstring \<Rightarrow> 'n StreamEvent" where
  "parseStreamEvent P timestamp line =
     (if startsWith line (lit ''0:'') then compact_branch P timestamp line (lit ''0'') SE_content
      else if startsWith line (lit ''9:'') then
        compact_branch P timestamp line (lit ''9'') SE_tool_call
      else if startsWith line (lit ''a:'') then
        compact_branch P timestamp line (lit ''a'') SE_tool_result
      else if startsWith line (lit ''e:'') then compact_branch P timestamp line (lit ''e'') SE_end
      else \<lparr>se_timestamp = timestamp, se_prefix = lit ''unknown'', se_data = line,
             se_parsed = None, se_type = SE_unknown\<rparr>)"

text \<open>
  The state of the debug page: the event log, the streaming flag, the abort controller
  (\<open>None\<close> is \<open>null\<close>, \<open>Some a\<close> a controller whose signal is aborted when \<open>a\<close>), and the
  number of clock readings so far.
\<close>

record 'n debug_state =
  d_events :: "'n StreamEvent list"
  d_isStreaming :: bool
  d_abortControllerRef :: "bool option"
  d_clock :: nat

text \<open>The \<open>for\<close> over the lines of one chunk: a line that is not blank is parsed and logged.\<close>

fun for_lines :: "'n platform \<Rightarrow> 'n debug_state \<Rightarrow> jsstring list \<Rightarrow> 'n debug_state" where
  "for_lines P s [] = s"
| "for_lines P s (line # ls) =
     (if trim line \<noteq> [] then
        for_lines P
          (s\<lparr>d_events := d_events s @ [parseStreamEvent P (Date_now P (d_clock s)) line],
             d_clock := Suc (d_clock s)\<rparr>) ls
      else for_lines P s ls)"

text \<open>
  The transport. \<open>fetch\<close> rejects, or gives a response with a status and a body; the body
  is \<open>null\<close> or a reader. A reader is the list of what its \<open>read()\<close> calls give, a chunk
  or a rejection; after the list it reports \<open>done\<close>.
\<close>

datatype read_result = ReadValue "byte list" | ReadThrows js_error

datatype fetch_result =
    FetchThrows js_error
  | Response (status: nat) (body: "read_result list option")

definition response_ok :: "nat \<Rightarrow> bool" where
  "response_ok st = (200 \<le> st \<and> st \<le> 299)"

text \<open>
  The \<open>while (true)\<close> loop: \<open>done\<close> leaves the loop, a rejected read throws, a chunk is
  reassembled and its lines are handled. The result is the state and what was thrown.
\<close>

fun read_loop ::
  "('d \<Rightarrow> byte \<Rightarrow> 'd \<times> jsstring) \<Rightarrow> 'n platform \<Rightarrow> 'd \<times> jsstring \<Rightarrow> 'n debug_state \<Rightarrow>
     read_result list \<Rightarrow> 'n debug_state \<times> js_error option" where
  "read_loop dstep P st s [] = (s, None)"
| "read_loop dstep P st s (ReadThrows e # rs) = (s, Some e)"
| "read_loop dstep P st s (ReadValue v # rs) =
     (let (st', lines) = read_chunk dstep st v
      in read_loop dstep P st' (for_lines P s lines) rs)"

text \<open>The \<open>catch\<close> block: an AbortError is only logged to the console, any other error
  is appended to the event log as an event of type \<open>unknown\<close>.\<close>

definition error_event :: "jsstring \<Rightarrow> js_error \<Rightarrow> 'n StreamEvent" where
  "error_event timestamp e =
     \<lparr>se_timestamp = timestamp, se_prefix = lit ''error'',
      se_data = lit ''Error: '' @ error_toString e, se_parsed = None, se_type = SE_unknown\<rparr>"

definition catch_block :: "'n platform \<Rightarrow> 'n debug_state \<Rightarrow> js_error \<Rightarrow> 'n debug_state" where
  "catch_block P s e =
     (if err_name e = lit ''AbortError'' then s
      else s\<lparr>d_events := d_events s @ [error_event (Date_now P (d_clock s)) e],
             d_clock := Suc (d_clock s)\<rparr>)"

text \<open>\<open>startStreaming\<close>, with the initial state \<open>d0\<close> of the new decoder.\<close>

definition startStreaming ::
  "('d \<Rightarrow> byte \<Rightarrow> 'd \<times> jsstring) \<Rightarrow> 'd \<Rightarrow> 'n platform \<Rightarrow> fetch_result \<Rightarrow> 'n debug_state \<Rightarrow>
     'n debug_state" where
  "startStreaming dstep d0 P response s =
     (let s1 = s\<lparr>d_events := [], d_isStreaming := True, d_abortControllerRef := Some False\<rparr>;
          (s2, thrown) =
            (case response of
               FetchThrows e \<Rightarrow> (s1, Some e)
             | Response st reader \<Rightarrow>
                 if \<not> response_ok st then
                   (s1, Some (new_Error (lit ''HTTP error! status: '' @ nat_toString st)))
                 else (case reader of
                         None \<Rightarrow> (s1, Some (new_Error (lit ''No reader available'')))
                       | Some reads \<Rightarrow> read_loop dstep P (d0, []) s1 reads));
          s3 = (case thrown of None \<Rightarrow> s2 | Some e \<Rightarrow> catch_block P s2 e)
      in s3\<lparr>d_isStreaming := False\<rparr>)"

definition stopStreaming :: "'n debug_state \<Rightarrow> 'n debug_state" where
  "stopStreaming s =
     (case d_abortControllerRef s of
        None \<Rightarrow> s
      | Some a \<Rightarrow> s\<lparr>d_abortControllerRef := Some True\<rparr>)"

section \<open>The custom protocol page (semantic protocol)\<close>

definition PROTOCOL_TEXT :: jsstring where
  "PROTOCOL_TEXT = lit ''TEXT:''"

definition PROTOCOL_FUNC_REQ :: jsstring where
  "PROTOCOL_FUNC_REQ = lit ''FUNC:''"

definition PROTOCOL_FUNC_RES :: jsstring where
  "PROTOCOL_FUNC_RES = lit ''RESP:''"

definition PROTOCOL_META :: jsstring where
  "PROTOCOL_META = lit ''META:''"

definition PROTOCOL_DEBUG :: jsstring where
  "PROTOCOL_DEBUG = lit ''DEBUG:''"

datatype custom_event_type =
  CE_text | CE_function_call | CE_function_response | CE_metadata | CE_debug

record 'n CustomStreamEvent =
  ce_type :: custom_event_type
  ce_data :: "'n jsvalue"
  ce_timestamp :: jsstring
  ce_raw :: jsstring

text \<open>
  One branch of \<open>parseStreamLine\<close>: the five prefix branches differ in the prefix and the
  type only. The payload is \<open>line.slice(prefix.length).trim()\<close>; when \<open>JSON.parse\<close> throws,
  the branch logs to the console and returns \<open>null\<close>.
\<close>

definition semantic_branch ::
  "'n platform \<Rightarrow> jsstring \<Rightarrow> jsstring \<Rightarrow> jsstring \<Rightarrow> custom_event_type \<Rightarrow>
     'n CustomStreamEvent option" where
  "semantic_branch P timestamp line pfx ty =
     (let data = trim (js_slice (length pfx) line)
      in case JSON_parse P data of
           Some parsed \<Rightarrow>
             Some \<lparr>ce_type = ty, ce_data = parsed, ce_timestamp = timestamp, ce_raw = line\<rparr>
         | None \<Rightarrow> None)"

definition parseStreamLine ::
  "'n platform \<Rightarrow> jsstring \<Rightarrow> jsstring \<Rightarrow> 'n CustomStreamEvent option" where
  "parseStreamLine P timestamp line =
     (if trim line = [] then None
      else if startsWith line PROTOCOL_TEXT then
        semantic_branch P timestamp line PROTOCOL_TEXT CE_text
      else if startsWith line PROTOCOL_FUNC_REQ then
        semantic_branch P timestamp line PROTOCOL_FUNC_REQ CE_function_call
      else if startsWith line PROTOCOL_FUNC_RES then
        semantic_branch P timestamp line PROTOCOL_FUNC_RES CE_function_response
      else if startsWith line PROTOCOL_META then
        semantic_branch P timestamp line PROTOCOL_META CE_metadata
      else if startsWith line PROTOCOL_DEBUG then
        semantic_branch P timestamp line PROTOCOL_DEBUG CE_debug
      else None)"

text \<open>
  The state of the page: the accumulated text, the event log, the streaming flag, the
  abort controller (\<open>None\<close> is \<open>null\<close>, \<open>Some a\<close> a controller whose signal is aborted when
  \<open>a\<close>), the number of clock readings so far, and the error a state updater has thrown
  inside React, if any.
\<close>

record 'n page_state =
  responseText :: jsstring
  events :: "'n CustomStreamEvent list"
  isStreaming :: bool
  abortControllerRef :: "bool option"
  clock :: nat
  updaterError :: "js_error option"

text \<open>
  \<open>functionRegistry[name]\<close> turns \<open>name\<close> into a property key: \<open>undefined\<close> gives the key
  \<open>undefined\<close>, a value its string, and a value without a string throws.
\<close>

definition property_key :: "'n platform \<Rightarrow> 'n jsvalue option \<Rightarrow> jsstring option" where
  "property_key P name =
     (case name of None \<Rightarrow> Some (lit ''undefined'') | Some v \<Rightarrow> js_toString P v)"

text \<open>
  \<open>processEvent\<close>: the new state and what was thrown. The event is appended to the log
  first. A text event hands \<open>setResponseText\<close> an updater that appends
  \<open>event.data || ''\<close> to the text. The updater runs inside React, not inside
  \<open>processEvent\<close>: when the string conversion of the payload throws, the text is not
  updated, the error is React's, and \<open>processEvent\<close> returns normally. A function call
  destructures \<open>event.data\<close>, which throws on \<open>null\<close>, and looks the name up in the
  registry, which throws when the name has no string conversion; both outcomes of the
  lookup only write to the console. The other types only write to the console. The
  messages of the TypeErrors are the engine's own and play no part.
\<close>

definition processEvent ::
  "'n platform \<Rightarrow> 'n page_state \<Rightarrow> 'n CustomStreamEvent \<Rightarrow> 'n page_state \<times> js_error option" where
  "processEvent P s event =
     (let s1 = s\<lparr>events := events s @ [event]\<rparr>
      in case ce_type event of
           CE_text \<Rightarrow>
             (let v = (if js_truthy P (ce_data event) then ce_data event else JStr [])
              in case js_toString P v of
                   Some t \<Rightarrow> (s1\<lparr>responseText := responseText s1 @ t\<rparr>, None)
                 | None \<Rightarrow>
                     (s1\<lparr>updaterError :=
                           Some (TypeError (lit ''Cannot convert object to primitive value''))\<rparr>,
                      None))
         | CE_function_call \<Rightarrow>
             (case ce_data event of
                JNull \<Rightarrow> (s1, Some (TypeError (lit ''Cannot destructure property of null'')))
              | _ \<Rightarrow>
                  (case property_key P (get_prop (ce_data event) (lit ''name'')) of
                     None \<Rightarrow>
                       (s1, Some (TypeError (lit ''Cannot convert object to primitive value'')))
                   | Some key \<Rightarrow> (s1, None)))
         | CE_function_response \<Rightarrow> (s1, None)
         | CE_metadata \<Rightarrow> (s1, None)
         | CE_debug \<Rightarrow> (s1, None))"

text \<open>
  The \<open>for\<close> over the lines of one chunk in \<open>startStream\<close>: a line that is not blank is
  parsed, and the event, when there is one, is processed. A throw ends the loop.
\<close>

fun process_lines ::
  "'n platform \<Rightarrow> 'n page_state \<Rightarrow> jsstring list \<Rightarrow> 'n page_state \<times> js_error option" where
  "process_lines P s [] = (s, None)"
| "process_lines P s (line # ls) =
     (if trim line \<noteq> [] then
        (let s1 = s\<lparr>clock := Suc (clock s)\<rparr>
         in case parseStreamLine P (Date_now P (clock s)) line of
              None \<Rightarrow> process_lines P s1 ls
            | Some event \<Rightarrow>
                (case processEvent P s1 event of
                   (s2, None) \<Rightarrow> process_lines P s2 ls
                 | (s2, Some e) \<Rightarrow> (s2, Some e)))
      else process_lines P s ls)"

text \<open>The chunks \<open>simulateStream\<close> yields, with \<open>JSON.stringify\<close> applied.\<close>

definition simulateStream :: "jsstring list" where
  \<open>simulateStream =
     [lit ''DEBUG: {"event":"stream_start"}'' @ [newline],
      lit ''TEXT: "I'' @ [0x27] @ lit ''ll check the weather in San Francisco for you."'' @ [newline],
      lit ''FUNC: {"id":"func_123","name":"get_current_weather","arguments":{"latitude":37.7749,"longitude":-122.4194}}'' @ [newline],
      lit ''RESP: {"id":"func_123","name":"get_current_weather","success":true,"result":{"temperature":68,"conditions":"Foggy"}}'' @ [newline],
      lit ''TEXT: " The current temperature in San Francisco is "'' @ [newline],
      lit ''TEXT: "68'' @ [0xB0] @ lit ''F"'' @ [newline],
      lit ''TEXT: " with foggy conditions."'' @ [newline],
      lit ''META: {"finishReason":"stop","tokens":{"prompt":54,"completion":42,"total":96}}'' @ [newline]]\<close>

text \<open>
  \<open>startStream\<close> up to its loop: the state, and the chunks the loop is about to read
  (\<open>None\<close> when the function has returned).
\<close>

definition startStream :: "'n page_state \<Rightarrow> 'n page_state \<times> jsstring list option" where
  "startStream s =
     (if isStreaming s then (s, None)
      else (s\<lparr>isStreaming := True, responseText := [], events := [],
              abortControllerRef := Some False\<rparr>, Some simulateStream))"

text \<open>
  One round of the \<open>for await\<close> loop, from the chunks not yet read: the end of the
  generator, an aborted signal and a throw all run the \<open>finally\<close> block and end the loop;
  otherwise the lines of the chunk are processed and the loop waits before the next round.
\<close>

fun loop_round ::
  "'n platform \<Rightarrow> 'n page_state \<Rightarrow> jsstring list \<Rightarrow> 'n page_state \<times> jsstring list option" where
  "loop_round P s [] = (s\<lparr>isStreaming := False\<rparr>, None)"
| "loop_round P s (chunk # rest) =
     (if abortControllerRef s = Some True then (s\<lparr>isStreaming := False\<rparr>, None)
      else (case process_lines P s (js_split newline chunk) of
              (s', None) \<Rightarrow> (s', Some rest)
            | (s', Some e) \<Rightarrow> (s'\<lparr>isStreaming := False\<rparr>, None)))"

definition stopStream :: "'n page_state \<Rightarrow> 'n page_state" where
  "stopStream s =
     (case abortControllerRef s of
        None \<Rightarrow> s
      | Some a \<Rightarrow> s\<lparr>abortControllerRef := Some True, isStreaming := False\<rparr>)"

text \<open>
  What happens on the page, in any order: the Start button is pressed (\<open>Start\<close>, which
  calls \<open>startStream\<close> and, when it does not return at once, begins a loop), the Stop
  button is pressed (\<open>Stop\<close>), or the loop begun by the \<open>i\<close>-th effective start wakes
  and runs its next round (\<open>Round i\<close>). A round runs to its wait without interruption,
  so a press falls between two rounds. The loops are kept in the order they were begun,
  each with the chunks it has not yet read, \<open>None\<close> once it has ended; every loop reads
  the one \<open>abortControllerRef\<close> of the page.
\<close>

datatype action = Start | Round nat | Stop

fun run ::
  "'n platform \<Rightarrow> 'n page_state \<times> jsstring list option list \<Rightarrow> action list \<Rightarrow>
     'n page_state \<times> jsstring list option list" where
  "run P c [] = c"
| "run P (s, loops) (Start # as) =
     (case startStream s of
        (s', None) \<Rightarrow> run P (s', loops) as
      | (s', Some chunks) \<Rightarrow> run P (s', loops @ [Some chunks]) as)"
| "run P (s, loops) (Stop # as) = run P (stopStream s, loops) as"
| "run P (s, loops) (Round i # as) =
     (if i < length loops then
        (case loops ! i of
           None \<Rightarrow> run P (s, loops) as
         | Some chunks \<Rightarrow>
             (case loop_round P s chunks of (s', g) \<Rightarrow> run P (s', loops[i := g]) as))
      else run P (s, loops) as)"

section \<open>A platform for evaluating examples\<close>

text \<open>
  Numbers are integers here. \<open>sample_parse\<close> is \<open>JSON.parse\<close> on the payloads of the
  examples below: the listed texts are the valid ones among them.
\<close>

fun int_toString :: "int \<Rightarrow> jsstring" where
  "int_toString i = (if i < 0 then lit ''-'' @ nat_toString (nat (- i)) else nat_toString (nat i))"

definition sample_parse :: "jsstring \<Rightarrow> int jsvalue option" where
  \<open>sample_parse t =
     (if t = lit ''"Hi"'' then Some (JStr (lit ''Hi''))
      else if t = lit ''"A"'' then Some (JStr (lit ''A''))
      else if t = lit ''"x"'' then Some (JStr (lit ''x''))
      else if t = lit '' "x"'' then Some (JStr (lit ''x''))
      else if t = lit ''false'' then Some (JBool False)
      else if t = lit ''0'' then Some (JNum 0)
      else if t = lit ''null'' then Some JNull
      else if t = lit ''{"toString":1}'' then Some (JObj [(lit ''toString'', JNum 1)])
      else if t = lit ''{"event":"stream_start"}'' then
        Some (JObj [(lit ''event'', JStr (lit ''stream_start''))])
      else if t = lit ''"I'' @ [0x27] @ lit ''ll check the weather in San Francisco for you."'' then
        Some (JStr (lit ''I'' @ [0x27] @ lit ''ll check the weather in San Francisco for you.''))
      else None)\<close>

definition sampleP :: "int platform" where
  "sampleP = \<lparr>JSON_parse = sample_parse, Number_isFalsy = (\<lambda>n. n = 0),
              Number_toString = int_toString,
              Date_now = (\<lambda>i. lit ''T'' @ nat_toString i)\<rparr>"

section \<open>The prefix tables and the initial states\<close>

text \<open>
  The prefixes each parser tests, with what its branch puts into the event: the compact
  parser a prefix name and a type, the semantic parser a type.
\<close>

definition compact_table :: "(jsstring \<times> jsstring \<times> stream_event_type) list" where
  "compact_table =
     [(lit ''0:'', lit ''0'', SE_content), (lit ''9:'', lit ''9'', SE_tool_call),
      (lit ''a:'', lit ''a'', SE_tool_result), (lit ''e:'', lit ''e'', SE_end)]"

definition semantic_table :: "(jsstring \<times> custom_event_type) list" where
  "semantic_table =
     [(PROTOCOL_TEXT, CE_text), (PROTOCOL_FUNC_REQ, CE_function_call),
      (PROTOCOL_FUNC_RES, CE_function_response), (PROTOCOL_META, CE_metadata),
      (PROTOCOL_DEBUG, CE_debug)]"

text \<open>The payload as the specification describes it: the line without the matched
  prefix and without the run of whitespace that follows the prefix.\<close>

definition spec_payload :: "jsstring \<Rightarrow> jsstring \<Rightarrow> jsstring" where
  "spec_payload pfx line = dropWhile is_ws (js_slice (length pfx) line)"

text \<open>The states the two pages are mounted with.\<close>

definition debug_init :: "'n debug_state" where
  "debug_init = \<lparr>d_events = [], d_isStreaming = False, d_abortControllerRef = None, d_clock = 0\<rparr>"

definition page_init :: "'n page_state" where
  "page_init = \<lparr>responseText = [], events = [], isStreaming = False,
                abortControllerRef = None, clock = 0, updaterError = None\<rparr>"

text \<open>The events the debug page's parser gives for the lines that are not blank, from
  the \<open>c\<close>-th clock reading on.\<close>

fun decoded_debug :: "'n platform \<Rightarrow> nat \<Rightarrow> jsstring list \<Rightarrow> 'n StreamEvent list" where
  "decoded_debug P c [] = []"
| "decoded_debug P c (line # ls) =
     (if trim line \<noteq> [] then parseStreamEvent P (Date_now P c) line # decoded_debug P (Suc c) ls
      else decoded_debug P c ls)"

text \<open>The events the custom page's parser gives for the lines that are not blank (the
  lines it returns \<open>null\<close> for give none), from the \<open>c\<close>-th clock reading on.\<close>

fun decoded_page :: "'n platform \<Rightarrow> nat \<Rightarrow> jsstring list \<Rightarrow> 'n CustomStreamEvent list" where
  "decoded_page P c [] = []"
| "decoded_page P c (line # ls) =
     (if trim line \<noteq> [] then
        (case parseStreamLine P (Date_now P c) line of
           None \<Rightarrow> decoded_page P (Suc c) ls
         | Some event \<Rightarrow> event # decoded_page P (Suc c) ls)
      else decoded_page P c ls)"

text \<open>
  The events whose handling in \<open>processEvent\<close> throws: a function call whose data is
  \<open>null\<close> or whose name has no string conversion. \<open>upto_throw\<close> cuts a sequence of
  events after the first such event.
\<close>

definition handler_throws :: "'n platform \<Rightarrow> 'n CustomStreamEvent \<Rightarrow> bool" where
  "handler_throws P event =
     (ce_type event = CE_function_call \<and>
      (ce_data event = JNull \<or>
       property_key P (get_prop (ce_data event) (lit ''name'')) = None))"

fun upto_throw :: "'n platform \<Rightarrow> 'n CustomStreamEvent list \<Rightarrow> 'n CustomStreamEvent list" where
  "upto_throw P [] = []"
| "upto_throw P (e # es) = (if handler_throws P e then [e] else e # upto_throw P es)"

section \<open>Properties of splitting and decoding\<close>

lemma js_split_not_Nil: "js_split sep xs \<noteq> []"
  by (induction xs) (auto split: list.splits)

lemma js_split_append:
  "js_split sep (xs @ ys) =
     butlast (js_split sep xs) @ js_split sep (last (js_split sep xs) @ ys)"
proof (induction xs)
  case Nil
  show ?case by simp
next
  case (Cons c cs)
  obtain l ls where sp: "js_split sep cs = l # ls"
    using js_split_not_Nil [of sep cs] by (cases "js_split sep cs") auto
  show ?case
  proof (cases "c = sep")
    case True
    with Cons sp show ?thesis by simp
  next
    case False
    show ?thesis
    proof (cases ls)
      case Nil
      with Cons sp False show ?thesis by simp
    next
      case (Cons a as)
      with Cons.IH sp False show ?thesis by simp
    qed
  qed
qed

lemma decode_append:
  "decode dstep d (xs @ ys) =
     (let (d1, out1) = decode dstep d xs; (d2, out2) = decode dstep d1 ys
      in (d2, out1 @ out2))"
  by (induction xs arbitrary: d) (auto split: prod.splits)

lemma read_chunk_eq:
  "read_chunk dstep (d, buffer) v =
     ((fst (decode dstep d v), last (js_split newline (buffer @ snd (decode dstep d v)))),
      butlast (js_split newline (buffer @ snd (decode dstep d v))))"
  by (simp add: read_chunk_def pop_def or_empty_def js_split_not_Nil Let_def split: prod.splits)
lemma js_split_no_sep: "sep \<notin> set xs \<Longrightarrow> js_split sep xs = [xs]"
  by (induction xs) auto

lemma last_js_split_no_sep: "sep \<notin> set (last (js_split sep xs))"
  by (induction xs) (auto split: list.splits simp: js_split_not_Nil)

lemma reassemble_eq:
  "newline \<notin> set buffer \<Longrightarrow> reassemble dstep (d, buffer) vs =
     ((fst (decode dstep d (concat vs)),
       last (js_split newline (buffer @ snd (decode dstep d (concat vs))))),
      butlast (js_split newline (buffer @ snd (decode dstep d (concat vs)))))"
proof (induction vs arbitrary: d buffer)
  case Nil
  then show ?case by (simp add: js_split_no_sep)
next
  case (Cons v vs)
  obtain d1 t1 where dv: "decode dstep d v = (d1, t1)" by (cases "decode dstep d v")
  obtain d2 t2 where dvs: "decode dstep d1 (concat vs) = (d2, t2)"
    by (cases "decode dstep d1 (concat vs)")
  let ?b1 = "last (js_split newline (buffer @ t1))"
  have nb: "newline \<notin> set ?b1" by (rule last_js_split_no_sep)
  have sp: "js_split newline (buffer @ t1 @ t2) =
      butlast (js_split newline (buffer @ t1)) @ js_split newline (?b1 @ t2)"
    using js_split_append [of newline "buffer @ t1" t2] by simp
  have ne: "js_split newline (?b1 @ t2) \<noteq> []" by (rule js_split_not_Nil)
  show ?case
    using Cons.IH [OF nb, of d1] dv dvs sp ne
    by (simp add: read_chunk_eq decode_append butlast_append)
qed

lemma trim_eq_Nil: "trim s = [] \<longleftrightarrow> (\<forall>c \<in> set s. is_ws c)"
proof
  assume "trim s = []"
  then have all: "\<forall>c \<in> set (dropWhile is_ws s). is_ws c"
    by (simp add: trim_def)
  have "dropWhile is_ws s = []"
  proof (rule ccontr)
    assume ne: "dropWhile is_ws s \<noteq> []"
    then have "\<not> is_ws (hd (dropWhile is_ws s))" by (rule hd_dropWhile)
    moreover from ne have "hd (dropWhile is_ws s) \<in> set (dropWhile is_ws s)" by simp
    ultimately show False using all by blast
  qed
  then show "\<forall>c \<in> set s. is_ws c" by simp
next
  assume "\<forall>c \<in> set s. is_ws c"
  then have d: "dropWhile is_ws s = []" by simp
  show "trim s = []" unfolding trim_def d by simp
qed

lemma startsWith_Nil: "startsWith line []"
  by (simp add: startsWith_def)

lemma startsWith_Cons:
  "startsWith line (c # p) = (case line of [] \<Rightarrow> False | x # r \<Rightarrow> x = c \<and> startsWith r p)"
  by (cases line) (auto simp: startsWith_def)

lemma startsWith_trim:
  assumes "startsWith line pfx" "pfx \<noteq> []" "\<not> is_ws (hd pfx)"
  shows "trim line \<noteq> []"
proof -
  from assms(1,2) have "hd pfx \<in> set line"
    unfolding startsWith_def
    by (metis hd_in_set in_set_takeD)
  with assms(3) show ?thesis by (auto simp: trim_eq_Nil)
qed

lemma compact_unknown:
  assumes "\<forall>(pfx, name, ty) \<in> set compact_table. \<not> startsWith line pfx"
  shows "parseStreamEvent P ts line =
           \<lparr>se_timestamp = ts, se_prefix = lit ''unknown'', se_data = line,
            se_parsed = None, se_type = SE_unknown\<rparr>"
  using assms by (simp add: compact_table_def parseStreamEvent_def)

lemma semantic_unknown:
  assumes "\<forall>(pfx, ty) \<in> set semantic_table. \<not> startsWith line pfx"
  shows "parseStreamLine P ts line = None"
  using assms by (simp add: semantic_table_def parseStreamLine_def)

lemma compact_matched:
  assumes "(pfx, name, ty) \<in> set compact_table" "startsWith line pfx"
  shows "parseStreamEvent P ts line = compact_branch P ts line name ty"
  using assms
  by (auto simp: compact_table_def parseStreamEvent_def startsWith_Cons startsWith_Nil lit_def
           split: list.splits)


lemma startsWith_differ:
  assumes "startsWith line p" "p \<noteq> []" "q \<noteq> []" "hd p \<noteq> hd q"
  shows "\<not> startsWith line q"
proof
  assume q: "startsWith line q"
  from assms(1,2) have "hd line = hd p"
    by (cases line; cases p) (auto simp: startsWith_def)
  moreover from q assms(3) have "hd line = hd q"
    by (cases line; cases q) (auto simp: startsWith_def)
  ultimately show False using assms(4) by simp
qed

lemmas PROTOCOL_defs =
  PROTOCOL_TEXT_def PROTOCOL_FUNC_REQ_def PROTOCOL_FUNC_RES_def PROTOCOL_META_def
  PROTOCOL_DEBUG_def

lemma semantic_matched:
  assumes "(pfx, ty) \<in> set semantic_table" "startsWith line pfx"
  shows "parseStreamLine P ts line = semantic_branch P ts line pfx ty"
proof -
  have ne: "trim line \<noteq> []"
    using assms
    by (intro startsWith_trim [of line pfx])
       (auto simp: semantic_table_def PROTOCOL_defs lit_def is_ws_def)
  from assms(1) consider
      (tx) "pfx = PROTOCOL_TEXT" "ty = CE_text"
    | (func) "pfx = PROTOCOL_FUNC_REQ" "ty = CE_function_call"
    | (resp) "pfx = PROTOCOL_FUNC_RES" "ty = CE_function_response"
    | (meta) "pfx = PROTOCOL_META" "ty = CE_metadata"
    | (debug) "pfx = PROTOCOL_DEBUG" "ty = CE_debug"
    by (auto simp: semantic_table_def)
  then show ?thesis
  proof cases
    case tx
    with assms(2) ne show ?thesis by (simp add: parseStreamLine_def)
  next
    case func
    have "\<not> startsWith line PROTOCOL_TEXT"
      using assms(2) func by (intro startsWith_differ [of line pfx]) (simp_all add: PROTOCOL_defs lit_def)
    with assms(2) ne func show ?thesis by (simp add: parseStreamLine_def)
  next
    case resp
    have "\<not> startsWith line PROTOCOL_TEXT" "\<not> startsWith line PROTOCOL_FUNC_REQ"
      using assms(2) resp by (intro startsWith_differ [of line pfx]; simp add: PROTOCOL_defs lit_def)+
    with assms(2) ne resp show ?thesis by (simp add: parseStreamLine_def)
  next
    case meta
    have "\<not> startsWith line PROTOCOL_TEXT" "\<not> startsWith line PROTOCOL_FUNC_REQ"
         "\<not> startsWith line PROTOCOL_FUNC_RES"
      using assms(2) meta by (intro startsWith_differ [of line pfx]; simp add: PROTOCOL_defs lit_def)+
    with assms(2) ne meta show ?thesis by (simp add: parseStreamLine_def)
  next
    case debug
    have "\<not> startsWith line PROTOCOL_TEXT" "\<not> startsWith line PROTOCOL_FUNC_REQ"
         "\<not> startsWith line PROTOCOL_FUNC_RES" "\<not> startsWith line PROTOCOL_META"
      using assms(2) debug by (intro startsWith_differ [of line pfx]; simp add: PROTOCOL_defs lit_def)+
    with assms(2) ne debug show ?thesis by (simp add: parseStreamLine_def)
  qed
qed

lemmas eval_defs =
  lit_def startsWith_def js_slice_def trim_def is_ws_def newline_def bytes_def
  PROTOCOL_defs

lemma for_lines_append: "for_lines P s (xs @ ys) = for_lines P (for_lines P s xs) ys"
  by (induction xs arbitrary: s) auto

lemma read_loop_values:
  "read_loop dstep P st s (map ReadValue vs) =
     (for_lines P s (snd (reassemble dstep st vs)), None)"
proof (induction vs arbitrary: st s)
  case Nil
  show ?case by simp
next
  case (Cons v vs)
  show ?case
    by (simp add: Cons.IH for_lines_append split: prod.splits)
qed

lemma read_loop_throws:
  "read_loop dstep P st s (map ReadValue vs @ ReadThrows e # rest) =
     (for_lines P s (snd (reassemble dstep st vs)), Some e)"
proof (induction vs arbitrary: st s)
  case Nil
  show ?case by simp
next
  case (Cons v vs)
  show ?case
    by (simp add: Cons.IH for_lines_append split: prod.splits)
qed

lemma for_lines_flags:
  "d_isStreaming (for_lines P s ls) = d_isStreaming s"
  "d_abortControllerRef (for_lines P s ls) = d_abortControllerRef s"
  by (induction ls arbitrary: s) auto

lemmas utf8_defs = utf8_step_def utf8_lead_def emit_def utf8_init_def utf16_units_def


lemma read_loop_chunking:
  "read_loop dstep P (d, []) s (map ReadValue vs) =
   read_loop dstep P (d, []) s (map ReadValue [concat vs])"
  unfolding read_loop_values by (simp add: reassemble_eq del: reassemble.simps)

lemma startStreaming_chunking:
  "startStreaming dstep d0 P (Response st (Some (map ReadValue vs))) s =
   startStreaming dstep d0 P (Response st (Some (map ReadValue [concat vs]))) s"
  using read_loop_chunking [of dstep P d0 _ vs] by (simp add: startStreaming_def Let_def)

lemma processEvent_events: "events (fst (processEvent P s event)) = events s @ [event]"
  by (simp add: processEvent_def Let_def
           split: custom_event_type.splits option.splits jsvalue.splits)

lemma processEvent_frame:
  "clock (fst (processEvent P s event)) = clock s"
  "isStreaming (fst (processEvent P s event)) = isStreaming s"
  "abortControllerRef (fst (processEvent P s event)) = abortControllerRef s"
  by (simp_all add: processEvent_def Let_def
           split: custom_event_type.splits option.splits jsvalue.splits)

lemma processEvent_thrown:
  "(snd (processEvent P s event) = None) = (\<not> handler_throws P event)"
  by (simp add: processEvent_def handler_throws_def Let_def
           split: custom_event_type.splits option.splits jsvalue.splits)

lemma process_lines_log:
  "events (fst (process_lines P s lines)) =
     events s @ upto_throw P (decoded_page P (clock s) lines)"
proof (induction lines arbitrary: s)
  case Nil
  show ?case by simp
next
  case (Cons line ls)
  show ?case
  proof (cases "trim line = []")
    case True
    with Cons show ?thesis by simp
  next
    case False
    show ?thesis
    proof (cases "parseStreamLine P (Date_now P (clock s)) line")
      case None
      with Cons [of "s\<lparr>clock := Suc (clock s)\<rparr>"] False show ?thesis by simp
    next
      case (Some event)
      let ?s1 = "s\<lparr>clock := Suc (clock s)\<rparr>"
      obtain s2 thrown where pe: "processEvent P ?s1 event = (s2, thrown)"
        by (cases "processEvent P ?s1 event")
      have ev: "events s2 = events s @ [event]" and ck: "clock s2 = Suc (clock s)"
        using processEvent_events [of P ?s1 event] processEvent_frame(1) [of P ?s1 event] pe
        by simp_all
      have th: "(thrown = None) = (\<not> handler_throws P event)"
        using processEvent_thrown [of P ?s1 event] pe by simp
      show ?thesis
      proof (cases thrown)
        case None
        with th have "\<not> handler_throws P event" by simp
        with Cons [of s2] None False Some pe ev ck show ?thesis by simp
      next
        case (Some e)
        with th have "handler_throws P event" by simp
        with Some False \<open>parseStreamLine P (Date_now P (clock s)) line = Some event\<close> pe ev
        show ?thesis by simp
      qed
    qed
  qed
qed

lemma process_lines_thrown:
  "(snd (process_lines P s lines) = None) =
     list_all (\<lambda>e. \<not> handler_throws P e) (decoded_page P (clock s) lines)"
proof (induction lines arbitrary: s)
  case Nil
  show ?case by simp
next
  case (Cons line ls)
  show ?case
  proof (cases "trim line = []")
    case True
    with Cons show ?thesis by simp
  next
    case False
    show ?thesis
    proof (cases "parseStreamLine P (Date_now P (clock s)) line")
      case None
      with Cons [of "s\<lparr>clock := Suc (clock s)\<rparr>"] False show ?thesis by simp
    next
      case (Some event)
      let ?s1 = "s\<lparr>clock := Suc (clock s)\<rparr>"
      obtain s2 thrown where pe: "processEvent P ?s1 event = (s2, thrown)"
        by (cases "processEvent P ?s1 event")
      have ck: "clock s2 = Suc (clock s)"
        using processEvent_frame(1) [of P ?s1 event] pe by simp
      have th: "(thrown = None) = (\<not> handler_throws P event)"
        using processEvent_thrown [of P ?s1 event] pe by simp
      show ?thesis
      proof (cases thrown)
        case None
        with th have "\<not> handler_throws P event" by simp
        with Cons [of s2] None False Some pe ck show ?thesis by simp
      next
        case (Some e)
        with th have "handler_throws P event" by simp
        with Some False \<open>parseStreamLine P (Date_now P (clock s)) line = Some event\<close> pe
        show ?thesis by simp
      qed
    qed
  qed
qed

lemma upto_throw_all:
  "list_all (\<lambda>e. \<not> handler_throws P e) es \<Longrightarrow> upto_throw P es = es"
  by (induction es) auto

lemma for_lines_events:
  "d_events (for_lines P s lines) = d_events s @ decoded_debug P (d_clock s) lines"
  by (induction lines arbitrary: s) auto

lemma process_lines_controller:
  "abortControllerRef (fst (process_lines P s lines)) = abortControllerRef s"
proof (induction lines arbitrary: s)
  case Nil
  show ?case by simp
next
  case (Cons line ls)
  show ?case
  proof (cases "trim line = []")
    case True
    with Cons show ?thesis by simp
  next
    case False
    show ?thesis
    proof (cases "parseStreamLine P (Date_now P (clock s)) line")
      case None
      with Cons [of "s\<lparr>clock := Suc (clock s)\<rparr>"] False show ?thesis by simp
    next
      case (Some event)
      obtain s2 thrown where pe: "processEvent P (s\<lparr>clock := Suc (clock s)\<rparr>) event = (s2, thrown)"
        by (cases "processEvent P (s\<lparr>clock := Suc (clock s)\<rparr>) event")
      have ac: "abortControllerRef s2 = abortControllerRef s"
        using processEvent_frame(3) [of P "s\<lparr>clock := Suc (clock s)\<rparr>" event] pe by simp
      show ?thesis
        using Cons [of s2] False Some pe ac by (cases thrown) simp_all
    qed
  qed
qed

lemma loop_round_controller:
  "abortControllerRef (fst (loop_round P s chunks)) = abortControllerRef s"
proof (cases chunks)
  case Nil
  then show ?thesis by simp
next
  case (Cons chunk rest)
  obtain s' thrown where pl: "process_lines P s (js_split newline chunk) = (s', thrown)"
    by (cases "process_lines P s (js_split newline chunk)")
  with process_lines_controller [of P s "js_split newline chunk"]
  have "abortControllerRef s' = abortControllerRef s" by simp
  with Cons pl show ?thesis by (cases thrown) simp_all
qed

lemma stopped_stays:
  assumes "abortControllerRef s = Some True" "\<not> isStreaming s" "Start \<notin> set as"
  shows "fst (run P (s, loops) as) = s"
  using assms(3)
proof (induction as arbitrary: loops)
  case Nil
  show ?case by simp
next
  case (Cons a as)
  have same: "s\<lparr>isStreaming := False\<rparr> = s" "stopStream s = s"
    using assms(1,2) by (simp_all add: stopStream_def)
  from Cons.prems have rest: "Start \<notin> set as" and a: "a \<noteq> Start" by auto
  show ?case
  proof (cases a)
    case Start
    with a show ?thesis by simp
  next
    case Stop
    with Cons.IH [OF rest] same show ?thesis by simp
  next
    case (Round i)
    have lr: "loop_round P s chunks = (s, None)" for chunks
      using assms(1) same by (cases chunks) simp_all
    show ?thesis
      using Cons.IH [OF rest] Round lr by (simp split: option.splits)
  qed
qed

lemma cancel_without_restart:
  assumes "abortControllerRef s \<noteq> None" "Start \<notin> set as"
  shows "fst (run P (stopStream s, loops) as) =
           s\<lparr>abortControllerRef := Some True, isStreaming := False\<rparr>"
proof -
  from assms(1) have st: "stopStream s = s\<lparr>abortControllerRef := Some True, isStreaming := False\<rparr>"
    by (auto simp: stopStream_def)
  have "fst (run P (stopStream s, loops) as) = stopStream s"
    by (rule stopped_stays) (simp_all add: st assms(2))
  with st show ?thesis by simp
qed

section \<open>Chunk reassembly does not depend on the chunking\<close>

text \<open>
  Claim C1. For every byte stream and every way of cutting it into chunks, also in the
  middle of a line or of a multi-byte character, the passes of the read loop over the
  chunks hand on the same lines in the same order, and end with the same decoder state
  and buffer, as one pass over the whole stream as a single chunk. This holds for every
  byte handler of the decoder and every state the decoder starts in; the buffer starts
  empty, as in \<open>startStreaming\<close>.
\<close>

theorem reassemble_chunking:
  "reassemble dstep (d, []) vs = reassemble dstep (d, []) [concat vs]"
  by (simp add: reassemble_eq del: reassemble.simps)

text \<open>
  So the event log of \<open>startStreaming\<close> does not depend on the chunking either; this is
  \<open>startStreaming_chunking\<close> above.
\<close>

text \<open>
  An instance with the UTF-8 decoder: the two bytes of U+00E9 arrive in different
  chunks, and the line comes out as if they had arrived together.
\<close>

lemma reassemble_multibyte_example:
  "snd (reassemble utf8_step (utf8_init, []) [bytes ''0:ab'' @ [0xC3], [0xA9, 0x0A, 0x41]]) =
     [lit ''0:ab'' @ [0xE9]]"
  by (simp add: read_chunk_eq bytes_def lit_def utf8_step_def utf8_lead_def emit_def
        utf8_init_def utf16_units_def newline_def)

section \<open>Lines that match no prefix\<close>

text \<open>
  Claim C2, as amended. A line that starts with none of the prefixes of the compact
  parser gives an event of type \<open>unknown\<close> whose data is the line itself. A line that
  starts with none of the prefixes of the semantic parser gives no event: the parser
  returns \<open>null\<close>. Neither parser raises.
\<close>

theorem unmatched_line:
  "((\<forall>(pfx, name, ty) \<in> set compact_table. \<not> startsWith line pfx) \<longrightarrow>
      parseStreamEvent P ts line =
        \<lparr>se_timestamp = ts, se_prefix = lit ''unknown'', se_data = line,
         se_parsed = None, se_type = SE_unknown\<rparr>) \<and>
   ((\<forall>(pfx, ty) \<in> set semantic_table. \<not> startsWith line' pfx) \<longrightarrow>
      parseStreamLine P ts line' = None)"
  using compact_unknown [of line P ts] semantic_unknown [of line' P ts] by blast

text \<open>Claim C2, witness: the line \<open>hello\<close> in both parsers.\<close>

theorem unmatched_line_witness:
  "\<not> startsWith (lit ''hello'') (lit ''0:'') \<and> \<not> startsWith (lit ''hello'') (lit ''9:'') \<and>
   \<not> startsWith (lit ''hello'') (lit ''a:'') \<and> \<not> startsWith (lit ''hello'') (lit ''e:'') \<and>
   parseStreamEvent sampleP (lit ''T0'') (lit ''hello'') =
     \<lparr>se_timestamp = lit ''T0'', se_prefix = lit ''unknown'', se_data = lit ''hello'',
      se_parsed = None, se_type = SE_unknown\<rparr> \<and>
   \<not> startsWith (lit ''hello'') PROTOCOL_TEXT \<and>
   \<not> startsWith (lit ''hello'') PROTOCOL_FUNC_REQ \<and>
   \<not> startsWith (lit ''hello'') PROTOCOL_FUNC_RES \<and>
   \<not> startsWith (lit ''hello'') PROTOCOL_META \<and>
   \<not> startsWith (lit ''hello'') PROTOCOL_DEBUG \<and>
   parseStreamLine sampleP (lit ''T0'') (lit ''hello'') = None"
proof -
  have h1: "\<forall>(pfx, name, ty) \<in> set compact_table. \<not> startsWith (lit ''hello'') pfx"
    by (simp add: compact_table_def eval_defs)
  have h2: "\<forall>(pfx, ty) \<in> set semantic_table. \<not> startsWith (lit ''hello'') pfx"
    by (simp add: semantic_table_def eval_defs)
  show ?thesis
    using unmatched_line [of "lit ''hello''" sampleP "lit ''T0''" "lit ''hello''"] h1 h2
    by (simp add: compact_table_def semantic_table_def)
qed

text \<open>
  Claim C2 as stated fails for the semantic parser: the line \<open>hello\<close> starts with none
  of its five prefixes, and the parser gives no event for it.
\<close>

theorem unmatched_line_counterexample:
  "\<not> startsWith (lit ''hello'') PROTOCOL_TEXT \<and>
   \<not> startsWith (lit ''hello'') PROTOCOL_FUNC_REQ \<and>
   \<not> startsWith (lit ''hello'') PROTOCOL_FUNC_RES \<and>
   \<not> startsWith (lit ''hello'') PROTOCOL_META \<and>
   \<not> startsWith (lit ''hello'') PROTOCOL_DEBUG \<and>
   parseStreamLine sampleP (lit ''T0'') (lit ''hello'') = None"
  by (simp add: parseStreamLine_def eval_defs)

section \<open>Payloads that are not JSON\<close>

text \<open>
  Claim C3, as amended. When the line starts with a prefix and \<open>JSON.parse\<close> throws on
  the payload, the compact parser gives the event of the prefix's type with the payload
  string as its data and as its parsed value, and the semantic parser gives no event: it
  returns \<open>null\<close>. Neither parser lets the error out.
\<close>

theorem malformed_payload:
  \<open>((pfx, name, ty) \<in> set compact_table \<and> startsWith line pfx \<and>
      JSON_parse P (js_slice 2 line) = None \<longrightarrow>
      parseStreamEvent P ts line =
        \<lparr>se_timestamp = ts, se_prefix = name, se_data = js_slice 2 line,
         se_parsed = Some (JStr (js_slice 2 line)), se_type = ty\<rparr>) \<and>
   ((pfx', ty') \<in> set semantic_table \<and> startsWith line' pfx' \<and>
      JSON_parse P (trim (js_slice (length pfx') line')) = None \<longrightarrow>
      parseStreamLine P ts line' = None)\<close>
  by (auto simp: compact_matched semantic_matched compact_branch_def semantic_branch_def Let_def)

text \<open>Claim C3, witness: the payload \<open>{not json\<close> after \<open>0:\<close> and after \<open>TEXT:\<close>.\<close>

theorem malformed_payload_witness:
  \<open>(lit ''0:'', lit ''0'', SE_content) \<in> set compact_table \<and>
   startsWith (lit ''0:{not json'') (lit ''0:'') \<and>
   JSON_parse sampleP (js_slice 2 (lit ''0:{not json'')) = None \<and>
   parseStreamEvent sampleP (lit ''T0'') (lit ''0:{not json'') =
     \<lparr>se_timestamp = lit ''T0'', se_prefix = lit ''0'', se_data = lit ''{not json'',
      se_parsed = Some (JStr (lit ''{not json'')), se_type = SE_content\<rparr> \<and>
   (PROTOCOL_TEXT, CE_text) \<in> set semantic_table \<and>
   startsWith (lit ''TEXT: {not json'') PROTOCOL_TEXT \<and>
   JSON_parse sampleP (trim (js_slice (length PROTOCOL_TEXT) (lit ''TEXT: {not json''))) = None \<and>
   parseStreamLine sampleP (lit ''T0'') (lit ''TEXT: {not json'') = None\<close>
proof -
  have a: "(lit ''0:'', lit ''0'', SE_content) \<in> set compact_table"
    by (simp add: compact_table_def)
  have b: "startsWith (lit ''0:{not json'') (lit ''0:'')"
    by (simp add: eval_defs)
  have c: "JSON_parse sampleP (js_slice 2 (lit ''0:{not json'')) = None"
    by (simp add: sampleP_def sample_parse_def eval_defs)
  have d: "js_slice 2 (lit ''0:{not json'') = lit ''{not json''"
    by (simp add: eval_defs)
  have a': "(PROTOCOL_TEXT, CE_text) \<in> set semantic_table"
    by (simp add: semantic_table_def)
  have b': "startsWith (lit ''TEXT: {not json'') PROTOCOL_TEXT"
    by (simp add: eval_defs)
  have c': "JSON_parse sampleP (trim (js_slice (length PROTOCOL_TEXT) (lit ''TEXT: {not json''))) = None"
    by (simp add: sampleP_def sample_parse_def eval_defs)
  show ?thesis
    using malformed_payload [of "lit ''0:''" "lit ''0''" SE_content "lit ''0:{not json''" sampleP
        "lit ''T0''" PROTOCOL_TEXT CE_text "lit ''TEXT: {not json''"] a b c a' b' c'
    by (simp add: d)
qed

text \<open>
  Claim C3 as stated fails for the semantic parser: the line \<open>TEXT: {not json\<close> starts
  with \<open>TEXT:\<close>, its payload \<open>{not json\<close> does not parse, and the parser gives no event
  instead of a text event with the payload string.
\<close>

theorem malformed_payload_counterexample:
  \<open>startsWith (lit ''TEXT: {not json'') PROTOCOL_TEXT \<and>
   trim (js_slice (length PROTOCOL_TEXT) (lit ''TEXT: {not json'')) = lit ''{not json'' \<and>
   JSON_parse sampleP (lit ''{not json'') = None \<and>
   parseStreamLine sampleP (lit ''T0'') (lit ''TEXT: {not json'') = None\<close>
  by (simp add: parseStreamLine_def semantic_branch_def sampleP_def sample_parse_def eval_defs)

section \<open>The payload handed to the JSON parser\<close>

text \<open>
  Claim C7, as amended. For a line that starts with a prefix, the compact parser hands
  to \<open>JSON.parse\<close> the line without the prefix and strips nothing else: whitespace after
  the prefix stays in the payload. The semantic parser hands over the line without the
  prefix and trimmed at both ends: whitespace before and after the payload is stripped.
  The result of each parser depends on \<open>JSON.parse\<close> only through its value at that
  string.
\<close>

theorem payload_handed_to_parser:
  \<open>((pfx, name, ty) \<in> set compact_table \<and> startsWith line pfx \<longrightarrow>
      parseStreamEvent P ts line =
        \<lparr>se_timestamp = ts, se_prefix = name, se_data = drop (length pfx) line,
         se_parsed = Some (case JSON_parse P (drop (length pfx) line) of
                             Some v \<Rightarrow> v | None \<Rightarrow> JStr (drop (length pfx) line)),
         se_type = ty\<rparr>) \<and>
   ((pfx', ty') \<in> set semantic_table \<and> startsWith line' pfx' \<longrightarrow>
      parseStreamLine P ts line' =
        map_option (\<lambda>parsed. \<lparr>ce_type = ty', ce_data = parsed, ce_timestamp = ts, ce_raw = line'\<rparr>)
          (JSON_parse P (trim (drop (length pfx') line'))))\<close>
proof (intro conjI impI)
  assume a: "(pfx, name, ty) \<in> set compact_table \<and> startsWith line pfx"
  then have len: "length pfx = 2" by (auto simp: compact_table_def lit_def)
  from a show "parseStreamEvent P ts line =
        \<lparr>se_timestamp = ts, se_prefix = name, se_data = drop (length pfx) line,
         se_parsed = Some (case JSON_parse P (drop (length pfx) line) of
                             Some v \<Rightarrow> v | None \<Rightarrow> JStr (drop (length pfx) line)),
         se_type = ty\<rparr>"
    unfolding len
    by (simp add: compact_matched [of pfx name ty] compact_branch_def js_slice_def Let_def)
next
  assume a: "(pfx', ty') \<in> set semantic_table \<and> startsWith line' pfx'"
  then show "parseStreamLine P ts line' =
        map_option (\<lambda>parsed. \<lparr>ce_type = ty', ce_data = parsed, ce_timestamp = ts, ce_raw = line'\<rparr>)
          (JSON_parse P (trim (drop (length pfx') line')))"
    by (simp add: semantic_matched [of pfx' ty'] semantic_branch_def js_slice_def
             split: option.splits)
qed

text \<open>
  Claim C7, witness: a payload with a space before it in the compact parser, and with
  spaces on both sides in the semantic parser.
\<close>

theorem payload_handed_to_parser_witness:
  \<open>(lit ''0:'', lit ''0'', SE_content) \<in> set compact_table \<and>
   startsWith (lit ''0: "x"'') (lit ''0:'') \<and>
   parseStreamEvent sampleP (lit ''T0'') (lit ''0: "x"'') =
     \<lparr>se_timestamp = lit ''T0'', se_prefix = lit ''0'', se_data = lit '' "x"'',
      se_parsed = Some (JStr (lit ''x'')), se_type = SE_content\<rparr> \<and>
   (PROTOCOL_TEXT, CE_text) \<in> set semantic_table \<and>
   startsWith (lit ''TEXT: "x" '') PROTOCOL_TEXT \<and>
   trim (drop (length PROTOCOL_TEXT) (lit ''TEXT: "x" '')) = lit ''"x"'' \<and>
   parseStreamLine sampleP (lit ''T0'') (lit ''TEXT: "x" '') =
     Some \<lparr>ce_type = CE_text, ce_data = JStr (lit ''x''), ce_timestamp = lit ''T0'',
           ce_raw = lit ''TEXT: "x" ''\<rparr>\<close>
proof -
  have a: "(lit ''0:'', lit ''0'', SE_content) \<in> set compact_table"
    by (simp add: compact_table_def)
  have b: \<open>startsWith (lit ''0: "x"'') (lit ''0:'')\<close>
    by (simp add: eval_defs)
  have c: \<open>drop (length (lit ''0:'')) (lit ''0: "x"'') = lit '' "x"''\<close>
    by (simp add: eval_defs)
  have d: \<open>JSON_parse sampleP (lit '' "x"'') = Some (JStr (lit ''x''))\<close>
    by (simp add: sampleP_def sample_parse_def eval_defs)
  have a': "(PROTOCOL_TEXT, CE_text) \<in> set semantic_table"
    by (simp add: semantic_table_def)
  have b': \<open>startsWith (lit ''TEXT: "x" '') PROTOCOL_TEXT\<close>
    by (simp add: eval_defs)
  have c': \<open>trim (drop (length PROTOCOL_TEXT) (lit ''TEXT: "x" '')) = lit ''"x"''\<close>
    by (simp add: eval_defs)
  have d': \<open>JSON_parse sampleP (lit ''"x"'') = Some (JStr (lit ''x''))\<close>
    by (simp add: sampleP_def sample_parse_def eval_defs)
  show ?thesis
    using payload_handed_to_parser [of "lit ''0:''" "lit ''0''" SE_content \<open>lit ''0: "x"''\<close>
        sampleP "lit ''T0''" PROTOCOL_TEXT CE_text \<open>lit ''TEXT: "x" ''\<close>] a b a' b'
    by (simp add: c d c' d')
qed

text \<open>
  Claim C7 as stated fails in both parsers. The compact parser keeps the space after
  \<open>0:\<close> in the payload, where the specification's payload has it stripped; the semantic
  parser also strips the space at the end of the line, where the specification's payload
  keeps it.
\<close>

theorem payload_handed_to_parser_counterexample:
  \<open>startsWith (lit ''0: "x"'') (lit ''0:'') \<and>
   se_data (parseStreamEvent sampleP (lit ''T0'') (lit ''0: "x"'')) = lit '' "x"'' \<and>
   spec_payload (lit ''0:'') (lit ''0: "x"'') = lit ''"x"'' \<and>
   se_data (parseStreamEvent sampleP (lit ''T0'') (lit ''0: "x"'')) \<noteq>
     spec_payload (lit ''0:'') (lit ''0: "x"'') \<and>
   startsWith (lit ''TEXT: "x" '') PROTOCOL_TEXT \<and>
   trim (js_slice (length PROTOCOL_TEXT) (lit ''TEXT: "x" '')) = lit ''"x"'' \<and>
   spec_payload PROTOCOL_TEXT (lit ''TEXT: "x" '') = lit ''"x" ''\<close>
  by (simp add: parseStreamEvent_def compact_branch_def spec_payload_def Let_def eval_defs)

section \<open>The end of the stream\<close>

text \<open>
  Claim C4, as amended. When the reader reports \<open>done\<close>, the read loop ends and hands on
  no further line: after a response whose reads all succeed, the log holds the events of
  the segments of the decoded stream that a line feed ends, and the text after the last
  line feed, empty or not, is not parsed.
\<close>

theorem close_discards_residual:
  "response_ok st \<Longrightarrow>
   startStreaming dstep d0 P (Response st (Some (map ReadValue vs))) s =
     (for_lines P (s\<lparr>d_events := [], d_isStreaming := True, d_abortControllerRef := Some False\<rparr>)
        (butlast (js_split newline (snd (decode dstep d0 (concat vs))))))
     \<lparr>d_isStreaming := False\<rparr>"
  by (simp add: startStreaming_def read_loop_values reassemble_eq Let_def del: reassemble.simps)

text \<open>
  Claim C4, witness: a stream of one complete line and an unterminated second one; only
  the first is logged.
\<close>

theorem close_discards_residual_witness:
  \<open>response_ok 200 \<and>
   snd (decode utf8_step utf8_init (concat [bytes ''0:"A"'' @ [0x0A] @ bytes ''0:"Hi"''])) =
     lit ''0:"A"'' @ [newline] @ lit ''0:"Hi"'' \<and>
   startStreaming utf8_step utf8_init sampleP
       (Response 200 (Some (map ReadValue [bytes ''0:"A"'' @ [0x0A] @ bytes ''0:"Hi"''])))
       debug_init =
     \<lparr>d_events = [\<lparr>se_timestamp = lit ''T0'', se_prefix = lit ''0'', se_data = lit ''"A"'',
                    se_parsed = Some (JStr (lit ''A'')), se_type = SE_content\<rparr>],
      d_isStreaming = False, d_abortControllerRef = Some False, d_clock = 1\<rparr>\<close>
proof -
  have ok: "response_ok 200" by (simp add: response_ok_def)
  have dec: \<open>snd (decode utf8_step utf8_init (concat [bytes ''0:"A"'' @ [0x0A] @ bytes ''0:"Hi"''])) =
     lit ''0:"A"'' @ [newline] @ lit ''0:"Hi"''\<close>
    by (simp add: utf8_defs eval_defs)
  have sp: \<open>butlast (js_split newline (lit ''0:"A"'' @ [newline] @ lit ''0:"Hi"'')) = [lit ''0:"A"'']\<close>
    by (simp add: eval_defs)
  have ev: \<open>parseStreamEvent sampleP (lit ''T0'') (lit ''0:"A"'') =
       \<lparr>se_timestamp = lit ''T0'', se_prefix = lit ''0'', se_data = lit ''"A"'',
        se_parsed = Some (JStr (lit ''A'')), se_type = SE_content\<rparr>\<close>
    by (simp add: parseStreamEvent_def compact_branch_def Let_def sampleP_def sample_parse_def
          eval_defs)
  have tr: \<open>trim (lit ''0:"A"'') \<noteq> []\<close>
    by (simp add: eval_defs)
  have now: "Date_now sampleP 0 = lit ''T0''"
    by (simp add: sampleP_def nat_toString.simps lit_def)
  show ?thesis
    using close_discards_residual [OF ok, of utf8_step utf8_init sampleP
        \<open>[bytes ''0:"A"'' @ [0x0A] @ bytes ''0:"Hi"'']\<close> debug_init]
    by (simp add: ok dec sp ev tr now debug_init_def del: append.simps concat.simps)
qed

text \<open>
  Claim C4 as stated fails: after the single chunk \<open>0:"A"\<close> the buffer holds that text,
  which is not empty, and at \<open>done\<close> no line is made of it: the log stays empty.
\<close>

theorem close_discards_residual_counterexample:
  \<open>snd (fst (reassemble utf8_step (utf8_init, []) [bytes ''0:"A"''])) = lit ''0:"A"'' \<and>
   lit ''0:"A"'' \<noteq> [] \<and>
   d_events (startStreaming utf8_step utf8_init sampleP
               (Response 200 (Some [ReadValue (bytes ''0:"A"'')])) debug_init) = []\<close>
  by (simp add: startStreaming_def response_ok_def read_chunk_eq debug_init_def Let_def
        utf8_defs eval_defs)

section \<open>Transport failures\<close>

text \<open>
  Claim C9. A response whose status is not 2xx, a rejected \<open>fetch\<close> and a rejected
  read (other than an abort) each end \<open>startStreaming\<close> with the streaming flag cleared
  and with one event of prefix \<open>error\<close> appended to the log. The first two happen before
  any event is logged. After a rejected read, the log is the log of the run in which the
  same chunks are followed by \<open>done\<close>, followed by the error event: every event logged
  before the failure is kept.
\<close>

theorem transport_failure:
  "(\<not> response_ok st \<longrightarrow>
      startStreaming dstep d0 P (Response st reader) s =
        \<lparr>d_events = [error_event (Date_now P (d_clock s))
                       (new_Error (lit ''HTTP error! status: '' @ nat_toString st))],
         d_isStreaming = False, d_abortControllerRef = Some False,
         d_clock = Suc (d_clock s)\<rparr>) \<and>
   (err_name e \<noteq> lit ''AbortError'' \<longrightarrow>
      startStreaming dstep d0 P (FetchThrows e) s =
        \<lparr>d_events = [error_event (Date_now P (d_clock s)) e],
         d_isStreaming = False, d_abortControllerRef = Some False,
         d_clock = Suc (d_clock s)\<rparr>) \<and>
   (response_ok st' \<and> err_name e' \<noteq> lit ''AbortError'' \<longrightarrow>
      (let before = startStreaming dstep d0 P (Response st' (Some (map ReadValue vs))) s;
           after = startStreaming dstep d0 P
                     (Response st' (Some (map ReadValue vs @ ReadThrows e' # rest))) s
       in d_events after = d_events before @ [error_event (Date_now P (d_clock before)) e'] \<and>
          d_isStreaming after = False \<and>
          d_abortControllerRef after = d_abortControllerRef before))"
proof (intro conjI impI)
  assume "\<not> response_ok st"
  then show "startStreaming dstep d0 P (Response st reader) s =
        \<lparr>d_events = [error_event (Date_now P (d_clock s))
                       (new_Error (lit ''HTTP error! status: '' @ nat_toString st))],
         d_isStreaming = False, d_abortControllerRef = Some False,
         d_clock = Suc (d_clock s)\<rparr>"
    by (simp add: startStreaming_def catch_block_def new_Error_def lit_def)
next
  assume "err_name e \<noteq> lit ''AbortError''"
  then show "startStreaming dstep d0 P (FetchThrows e) s =
        \<lparr>d_events = [error_event (Date_now P (d_clock s)) e],
         d_isStreaming = False, d_abortControllerRef = Some False,
         d_clock = Suc (d_clock s)\<rparr>"
    by (simp add: startStreaming_def catch_block_def)
next
  assume "response_ok st' \<and> err_name e' \<noteq> lit ''AbortError''"
  then show "let before = startStreaming dstep d0 P (Response st' (Some (map ReadValue vs))) s;
           after = startStreaming dstep d0 P
                     (Response st' (Some (map ReadValue vs @ ReadThrows e' # rest))) s
       in d_events after = d_events before @ [error_event (Date_now P (d_clock before)) e'] \<and>
          d_isStreaming after = False \<and>
          d_abortControllerRef after = d_abortControllerRef before"
    by (simp add: startStreaming_def read_loop_values read_loop_throws catch_block_def Let_def
          for_lines_flags)
qed

text \<open>
  Claim C9, witness: status 404, a \<open>fetch\<close> that fails, and a read that fails after one
  complete line.
\<close>

theorem transport_failure_witness:
  \<open>\<not> response_ok 404 \<and>
   startStreaming utf8_step utf8_init sampleP (Response 404 None) debug_init =
     \<lparr>d_events = [\<lparr>se_timestamp = lit ''T0'', se_prefix = lit ''error'',
                    se_data = lit ''Error: Error: HTTP error! status: 404'',
                    se_parsed = None, se_type = SE_unknown\<rparr>],
      d_isStreaming = False, d_abortControllerRef = Some False, d_clock = 1\<rparr> \<and>
   err_name (TypeError (lit ''Failed to fetch'')) \<noteq> lit ''AbortError'' \<and>
   startStreaming utf8_step utf8_init sampleP (FetchThrows (TypeError (lit ''Failed to fetch'')))
       debug_init =
     \<lparr>d_events = [\<lparr>se_timestamp = lit ''T0'', se_prefix = lit ''error'',
                    se_data = lit ''Error: TypeError: Failed to fetch'',
                    se_parsed = None, se_type = SE_unknown\<rparr>],
      d_isStreaming = False, d_abortControllerRef = Some False, d_clock = 1\<rparr> \<and>
   response_ok 200 \<and>
   d_events (startStreaming utf8_step utf8_init sampleP
       (Response 200 (Some (map ReadValue [bytes ''0:"A"'' @ [0x0A]]))) debug_init) =
     [\<lparr>se_timestamp = lit ''T0'', se_prefix = lit ''0'', se_data = lit ''"A"'',
       se_parsed = Some (JStr (lit ''A'')), se_type = SE_content\<rparr>] \<and>
   d_events (startStreaming utf8_step utf8_init sampleP
       (Response 200 (Some (map ReadValue [bytes ''0:"A"'' @ [0x0A]] @
                            ReadThrows (TypeError (lit ''network error'')) # [])))
       debug_init) =
     [\<lparr>se_timestamp = lit ''T0'', se_prefix = lit ''0'', se_data = lit ''"A"'',
       se_parsed = Some (JStr (lit ''A'')), se_type = SE_content\<rparr>,
      \<lparr>se_timestamp = lit ''T1'', se_prefix = lit ''error'',
       se_data = lit ''Error: TypeError: network error'',
       se_parsed = None, se_type = SE_unknown\<rparr>] \<and>
   d_isStreaming (startStreaming utf8_step utf8_init sampleP
       (Response 200 (Some (map ReadValue [bytes ''0:"A"'' @ [0x0A]] @
                            ReadThrows (TypeError (lit ''network error'')) # [])))
       debug_init) = False\<close>
proof -
  have h1: "\<not> response_ok 404" by (simp add: response_ok_def)
  have h2: "err_name (TypeError (lit ''Failed to fetch'')) \<noteq> lit ''AbortError''"
    by (simp add: TypeError_def lit_def)
  have h3: "response_ok 200 \<and> err_name (TypeError (lit ''network error'')) \<noteq> lit ''AbortError''"
    by (simp add: response_ok_def TypeError_def lit_def)
  have clk: "d_clock (debug_init :: int debug_state) = 0"
    by (simp add: debug_init_def)
  have now: "Date_now sampleP 0 = lit ''T0''" "Date_now sampleP (Suc 0) = lit ''T1''"
    by (simp_all add: sampleP_def nat_toString.simps lit_def)
  have ev1: \<open>error_event (lit ''T0'') (new_Error (lit ''HTTP error! status: '' @ nat_toString 404)) =
      (\<lparr>se_timestamp = lit ''T0'', se_prefix = lit ''error'',
        se_data = lit ''Error: Error: HTTP error! status: 404'',
        se_parsed = None, se_type = SE_unknown\<rparr> :: int StreamEvent)\<close>
    by (simp add: error_event_def error_toString_def new_Error_def nat_toString.simps lit_def)
  have ev2: \<open>error_event (lit ''T0'') (TypeError (lit ''Failed to fetch'')) =
      (\<lparr>se_timestamp = lit ''T0'', se_prefix = lit ''error'',
        se_data = lit ''Error: TypeError: Failed to fetch'',
        se_parsed = None, se_type = SE_unknown\<rparr> :: int StreamEvent)\<close>
    by (simp add: error_event_def error_toString_def TypeError_def lit_def)
  have ev3: \<open>error_event (lit ''T1'') (TypeError (lit ''network error'')) =
      (\<lparr>se_timestamp = lit ''T1'', se_prefix = lit ''error'',
        se_data = lit ''Error: TypeError: network error'',
        se_parsed = None, se_type = SE_unknown\<rparr> :: int StreamEvent)\<close>
    by (simp add: error_event_def error_toString_def TypeError_def lit_def)
  have before: \<open>startStreaming utf8_step utf8_init sampleP
       (Response 200 (Some (map ReadValue [bytes ''0:"A"'' @ [0x0A]]))) debug_init =
     \<lparr>d_events = [\<lparr>se_timestamp = lit ''T0'', se_prefix = lit ''0'', se_data = lit ''"A"'',
       se_parsed = Some (JStr (lit ''A'')), se_type = SE_content\<rparr>],
      d_isStreaming = False, d_abortControllerRef = Some False, d_clock = Suc 0\<rparr>\<close>
    by (simp add: startStreaming_def response_ok_def read_chunk_eq debug_init_def Let_def
          parseStreamEvent_def compact_branch_def sampleP_def sample_parse_def
          nat_toString.simps utf8_defs eval_defs)
  show ?thesis
    using transport_failure [of 404 utf8_step utf8_init sampleP None debug_init
        "TypeError (lit ''Failed to fetch'')" 200 "TypeError (lit ''network error'')"
        \<open>[bytes ''0:"A"'' @ [0x0A]]\<close> "[]"] h1 h2 h3
    by (simp add: before now ev1 ev2 ev3 clk Let_def del: append.simps map_append list.map)
qed

section \<open>The event log\<close>

text \<open>
  Claim C5. \<open>processEvent\<close> appends the event to the log whatever its type, before the
  handling of the type and also when that handling throws; it throws exactly on the
  events of \<open>handler_throws\<close>. The loop over the lines of a chunk parses a line and
  processes its event before it parses the next line, and a throw ends it. So the log
  after the loop is the log before it followed by the events the parser gives for the
  lines, in their order, up to and including the first event whose handling throws:
  these are the events the loop has decoded. When nothing is thrown, which is when no
  event of the lines is one of \<open>handler_throws\<close>, they are the events of all the lines. A
  text event whose string conversion fails does not end the loop. The debug page logs
  every event its parser gives, in order.
\<close>

theorem event_log_complete:
  "events (fst (processEvent P s event)) = events s @ [event] \<and>
   (snd (processEvent P s event) = None) = (\<not> handler_throws P event) \<and>
   events (fst (process_lines P s lines)) =
     events s @ upto_throw P (decoded_page P (clock s) lines) \<and>
   (snd (process_lines P s lines) = None \<longrightarrow>
      events (fst (process_lines P s lines)) = events s @ decoded_page P (clock s) lines) \<and>
   (snd (process_lines P s lines) = None) =
     list_all (\<lambda>e. \<not> handler_throws P e) (decoded_page P (clock s) lines) \<and>
   d_events (for_lines P sd lines') = d_events sd @ decoded_debug P (d_clock sd) lines'"
proof -
  have "snd (process_lines P s lines) = None \<longrightarrow>
      events (fst (process_lines P s lines)) = events s @ decoded_page P (clock s) lines"
    by (simp add: process_lines_log process_lines_thrown upto_throw_all)
  then show ?thesis
    by (simp only: processEvent_events processEvent_thrown process_lines_log
          process_lines_thrown for_lines_events simp_thms)
qed

text \<open>
  Claim C5, witness. Five lines, of which three give an event: the second event is a
  text event whose payload has no string conversion, the loop goes on, reads the clock
  for each of the four lines that are not blank, and the log holds the three events in
  order. And three lines whose second event is a function call with the data \<open>null\<close>:
  the call is logged, its handling throws, and the event of the third line is not in
  the log.
\<close>

theorem event_log_complete_witness:
  \<open>snd (process_lines sampleP page_init
      [lit ''DEBUG: {"event":"stream_start"}'', lit ''TEXT: {"toString":1}'', lit ''hello'', [],
       lit ''TEXT: "Hi"'']) = None \<and>
   clock (fst (process_lines sampleP page_init
      [lit ''DEBUG: {"event":"stream_start"}'', lit ''TEXT: {"toString":1}'', lit ''hello'', [],
       lit ''TEXT: "Hi"''])) = 4 \<and>
   events (fst (process_lines sampleP page_init
      [lit ''DEBUG: {"event":"stream_start"}'', lit ''TEXT: {"toString":1}'', lit ''hello'', [],
       lit ''TEXT: "Hi"''])) =
     decoded_page sampleP 0
      [lit ''DEBUG: {"event":"stream_start"}'', lit ''TEXT: {"toString":1}'', lit ''hello'', [],
       lit ''TEXT: "Hi"''] \<and>
   decoded_page sampleP 0
      [lit ''DEBUG: {"event":"stream_start"}'', lit ''TEXT: {"toString":1}'', lit ''hello'', [],
       lit ''TEXT: "Hi"''] =
     [\<lparr>ce_type = CE_debug, ce_data = JObj [(lit ''event'', JStr (lit ''stream_start''))],
       ce_timestamp = lit ''T0'', ce_raw = lit ''DEBUG: {"event":"stream_start"}''\<rparr>,
      \<lparr>ce_type = CE_text, ce_data = JObj [(lit ''toString'', JNum 1)],
       ce_timestamp = lit ''T1'', ce_raw = lit ''TEXT: {"toString":1}''\<rparr>,
      \<lparr>ce_type = CE_text, ce_data = JStr (lit ''Hi''), ce_timestamp = lit ''T3'',
       ce_raw = lit ''TEXT: "Hi"''\<rparr>] \<and>
   decoded_page sampleP 0
      [lit ''DEBUG: {"event":"stream_start"}'', lit ''FUNC: null'', lit ''TEXT: "Hi"''] =
     [\<lparr>ce_type = CE_debug, ce_data = JObj [(lit ''event'', JStr (lit ''stream_start''))],
       ce_timestamp = lit ''T0'', ce_raw = lit ''DEBUG: {"event":"stream_start"}''\<rparr>,
      \<lparr>ce_type = CE_function_call, ce_data = JNull, ce_timestamp = lit ''T1'',
       ce_raw = lit ''FUNC: null''\<rparr>,
      \<lparr>ce_type = CE_text, ce_data = JStr (lit ''Hi''), ce_timestamp = lit ''T2'',
       ce_raw = lit ''TEXT: "Hi"''\<rparr>] \<and>
   snd (process_lines sampleP page_init
      [lit ''DEBUG: {"event":"stream_start"}'', lit ''FUNC: null'', lit ''TEXT: "Hi"'']) =
     Some (TypeError (lit ''Cannot destructure property of null'')) \<and>
   events (fst (process_lines sampleP page_init
      [lit ''DEBUG: {"event":"stream_start"}'', lit ''FUNC: null'', lit ''TEXT: "Hi"''])) =
     [\<lparr>ce_type = CE_debug, ce_data = JObj [(lit ''event'', JStr (lit ''stream_start''))],
       ce_timestamp = lit ''T0'', ce_raw = lit ''DEBUG: {"event":"stream_start"}''\<rparr>,
      \<lparr>ce_type = CE_function_call, ce_data = JNull, ce_timestamp = lit ''T1'',
       ce_raw = lit ''FUNC: null''\<rparr>]\<close>
proof -
  let ?L = \<open>[lit ''DEBUG: {"event":"stream_start"}'', lit ''TEXT: {"toString":1}'', lit ''hello'', [],
             lit ''TEXT: "Hi"'']\<close>
  let ?M = \<open>[lit ''DEBUG: {"event":"stream_start"}'', lit ''FUNC: null'', lit ''TEXT: "Hi"'']\<close>
  let ?s = "page_init :: int page_state"
  let ?e = \<open>\<lparr>ce_type = CE_function_call, ce_data = JNull, ce_timestamp = lit ''T1'',
             ce_raw = lit ''FUNC: null''\<rparr> :: int CustomStreamEvent\<close>
  note inst = event_log_complete [of sampleP ?s ?e ?L debug_init "[]"]
  note inst' = event_log_complete [of sampleP ?s ?e ?M debug_init "[]"]
  have init: "events ?s = []" "clock ?s = 0"
    by (simp_all add: page_init_def)
  have nothrow: "snd (process_lines sampleP ?s ?L) = None"
    by (simp add: page_init_def parseStreamLine_def semantic_branch_def processEvent_def Let_def
          sampleP_def sample_parse_def nat_toString.simps eval_defs)
  have ck: "clock (fst (process_lines sampleP ?s ?L)) = 4"
    by (simp add: page_init_def parseStreamLine_def semantic_branch_def processEvent_def Let_def
          sampleP_def sample_parse_def nat_toString.simps eval_defs)
  have dec1: \<open>decoded_page sampleP 0 ?L =
     [\<lparr>ce_type = CE_debug, ce_data = JObj [(lit ''event'', JStr (lit ''stream_start''))],
       ce_timestamp = lit ''T0'', ce_raw = lit ''DEBUG: {"event":"stream_start"}''\<rparr>,
      \<lparr>ce_type = CE_text, ce_data = JObj [(lit ''toString'', JNum 1)],
       ce_timestamp = lit ''T1'', ce_raw = lit ''TEXT: {"toString":1}''\<rparr>,
      \<lparr>ce_type = CE_text, ce_data = JStr (lit ''Hi''), ce_timestamp = lit ''T3'',
       ce_raw = lit ''TEXT: "Hi"''\<rparr>]\<close>
    by (simp add: parseStreamLine_def semantic_branch_def Let_def
          sampleP_def sample_parse_def nat_toString.simps eval_defs)
  have dec2: \<open>decoded_page sampleP 0 ?M =
     [\<lparr>ce_type = CE_debug, ce_data = JObj [(lit ''event'', JStr (lit ''stream_start''))],
       ce_timestamp = lit ''T0'', ce_raw = lit ''DEBUG: {"event":"stream_start"}''\<rparr>,
      ?e,
      \<lparr>ce_type = CE_text, ce_data = JStr (lit ''Hi''), ce_timestamp = lit ''T2'',
       ce_raw = lit ''TEXT: "Hi"''\<rparr>]\<close>
    by (simp add: parseStreamLine_def semantic_branch_def Let_def
          sampleP_def sample_parse_def nat_toString.simps eval_defs)
  have thrown: "snd (process_lines sampleP ?s ?M) =
      Some (TypeError (lit ''Cannot destructure property of null''))"
    by (simp add: page_init_def parseStreamLine_def semantic_branch_def processEvent_def Let_def
          sampleP_def sample_parse_def nat_toString.simps eval_defs)
  have "events (fst (process_lines sampleP ?s ?L)) =
          events ?s @ decoded_page sampleP (clock ?s) ?L"
    by (rule inst [THEN conjunct2, THEN conjunct2, THEN conjunct2, THEN conjunct1, THEN mp,
          OF nothrow])
  then have log1: "events (fst (process_lines sampleP ?s ?L)) = decoded_page sampleP 0 ?L"
    by (simp only: init append_Nil)
  have "events (fst (process_lines sampleP ?s ?M)) =
          events ?s @ upto_throw sampleP (decoded_page sampleP (clock ?s) ?M)"
    by (rule inst' [THEN conjunct2, THEN conjunct2, THEN conjunct1])
  then have "events (fst (process_lines sampleP ?s ?M)) =
          upto_throw sampleP (decoded_page sampleP 0 ?M)"
    by (simp only: init append_Nil)
  moreover have \<open>upto_throw sampleP
     [\<lparr>ce_type = CE_debug, ce_data = JObj [(lit ''event'', JStr (lit ''stream_start''))],
       ce_timestamp = lit ''T0'', ce_raw = lit ''DEBUG: {"event":"stream_start"}''\<rparr>,
      ?e,
      \<lparr>ce_type = CE_text, ce_data = JStr (lit ''Hi''), ce_timestamp = lit ''T2'',
       ce_raw = lit ''TEXT: "Hi"''\<rparr>] =
     [\<lparr>ce_type = CE_debug, ce_data = JObj [(lit ''event'', JStr (lit ''stream_start''))],
       ce_timestamp = lit ''T0'', ce_raw = lit ''DEBUG: {"event":"stream_start"}''\<rparr>, ?e]\<close>
    by (simp add: handler_throws_def)
  ultimately have log2: \<open>events (fst (process_lines sampleP ?s ?M)) =
     [\<lparr>ce_type = CE_debug, ce_data = JObj [(lit ''event'', JStr (lit ''stream_start''))],
       ce_timestamp = lit ''T0'', ce_raw = lit ''DEBUG: {"event":"stream_start"}''\<rparr>, ?e]\<close>
    by (simp only: dec2)
  show ?thesis
    by (intro conjI) (rule nothrow, rule ck, rule log1, rule dec1, rule dec2, rule thrown, rule log2)
qed

section \<open>Text events\<close>




section \<open>Cancellation\<close>

text \<open>
  Claim C8: after a cancellation no further event is applied, whatever remains to be
  read. The page stops a loop through the signal of the controller in
  \<open>abortControllerRef\<close>, which the loop reads at the start of each round, and as long as
  no new stream is started this works: the text and the log stay what they were at the
  press (\<open>cancel_without_restart\<close> above). But \<open>stopStream\<close> also clears the streaming
  flag, so Start can be pressed while the cancelled loop is still in its wait;
  \<open>startStream\<close> then puts a new controller into the ref, the cancelled loop reads that
  one when it wakes, and it carries on. Below, the stream is cancelled after one event;
  a new stream is started and runs its first round; then the cancelled loop wakes and
  applies the text event of its second chunk.
\<close>

theorem cancelled_loop_applies_event:
  \<open>run sampleP (page_init, []) [Start, Round 0, Stop] =
     (\<lparr>responseText = [],
       events =
         [\<lparr>ce_type = CE_debug, ce_data = JObj [(lit ''event'', JStr (lit ''stream_start''))],
           ce_timestamp = lit ''T0'', ce_raw = lit ''DEBUG: {"event":"stream_start"}''\<rparr>],
       isStreaming = False, abortControllerRef = Some True, clock = 1, updaterError = None\<rparr>,
      [Some (drop 1 simulateStream)]) \<and>
   run sampleP (page_init, []) [Start, Round 0, Stop, Start, Round 1] =
     (\<lparr>responseText = [],
       events =
         [\<lparr>ce_type = CE_debug, ce_data = JObj [(lit ''event'', JStr (lit ''stream_start''))],
           ce_timestamp = lit ''T1'', ce_raw = lit ''DEBUG: {"event":"stream_start"}''\<rparr>],
       isStreaming = True, abortControllerRef = Some False, clock = 2, updaterError = None\<rparr>,
      [Some (drop 1 simulateStream), Some (drop 1 simulateStream)]) \<and>
   run sampleP (page_init, []) [Start, Round 0, Stop, Start, Round 1, Round 0] =
     (\<lparr>responseText = lit ''I'' @ [0x27] @ lit ''ll check the weather in San Francisco for you.'',
       events =
         [\<lparr>ce_type = CE_debug, ce_data = JObj [(lit ''event'', JStr (lit ''stream_start''))],
           ce_timestamp = lit ''T1'', ce_raw = lit ''DEBUG: {"event":"stream_start"}''\<rparr>,
          \<lparr>ce_type = CE_text,
           ce_data = JStr (lit ''I'' @ [0x27] @ lit ''ll check the weather in San Francisco for you.''),
           ce_timestamp = lit ''T2'',
           ce_raw = lit ''TEXT: "I'' @ [0x27] @
                    lit ''ll check the weather in San Francisco for you."''\<rparr>],
       isStreaming = True, abortControllerRef = Some False, clock = 3, updaterError = None\<rparr>,
      [Some (drop 2 simulateStream), Some (drop 1 simulateStream)])\<close>
  by (simp add: startStream_def stopStream_def page_init_def simulateStream_def
        parseStreamLine_def semantic_branch_def processEvent_def Let_def sampleP_def
        sample_parse_def nat_toString.simps eval_defs)

section \<open>Starting while a stream is active\<close>

text \<open>
  Claim C10. When the streaming flag is set, \<open>startStream\<close> returns at once: the text,
  the event log, the flag and the abort controller are unchanged and no loop is begun.
\<close>

theorem start_while_streaming: "isStreaming s \<Longrightarrow> startStream s = (s, None)"
  by (simp add: startStream_def)

text \<open>
  Claim C10, witness: the initial page with the streaming flag set.
\<close>

theorem start_while_streaming_witness:
  "isStreaming (page_init\<lparr>isStreaming := True\<rparr> :: int page_state) \<and>
   startStream (page_init\<lparr>isStreaming := True\<rparr> :: int page_state) =
     (page_init\<lparr>isStreaming := True\<rparr>, None)"
  using start_while_streaming [of "page_init\<lparr>isStreaming := True\<rparr> :: int page_state"]
  by simp

end
